theory Spec2Isabelle
  imports Main "HOL-Library.AList" "HOL-Library.List_Lexorder" "HOL-Library.Char_ord"
begin

section \<open>Message model (pkg/mcp/protocol.go)\<close>

text \<open>
  A JSON document as it travels on the transport.  An object keeps its members in
  document order, duplicates included.  A number token is held by its value; the
  model covers integer tokens (identifiers, codes), not fractions or exponents.
\<close>

datatype json =
    JNull
  | JBool bool
  | JNum int
  | JStr string
  | JArr "json list"
  | JObj "(string \<times> json) list"

text \<open>The structs of protocol.go, field by field.\<close>

record Content =
  Type :: string
  Text :: string
  Data :: string
  MimeType :: string

record CallToolResponse =
  Content :: "Content list"
  IsError :: bool

record ToolsCapability =
  ListChanged :: bool

text \<open>
  \<open>ServerCapabilities\<close>: the three capability pointers are \<open>None\<close> for a nil pointer.
  The two \<open>map[string]interface{}\<close> fields \<open>Experimental\<close> and \<open>Logging\<close> are never
  set by this program and are left out.
\<close>

record ServerCapabilities =
  Prompts :: "bool option"
  Resources :: "(bool \<times> bool) option"
  Tools :: "ToolsCapability option"

record ServerInfo =
  Name :: string
  Version :: string

record InitializeResponse =
  ProtocolVersion :: string
  Capabilities :: ServerCapabilities
  ServerInfo :: ServerInfo

text \<open>
  \<open>Property\<close> and \<open>ToolSchema\<close>.  \<open>Default\<close> is an \<open>interface{}\<close> that the tools set to a
  string or an int, or leave nil.  \<open>Items\<close> and \<open>AdditionalProperties\<close> are set by no tool
  of this program (a nil pointer and a nil interface, omitted when encoded) and are left
  out.  \<open>Properties\<close> is a Go map, held as an association list.
\<close>

datatype DefaultValue = DefaultNil | DefaultString string | DefaultInt int

record Property =
  Type :: string
  Description :: string
  Enum :: "string list"
  Default :: DefaultValue

record ToolSchema =
  Type :: string
  Properties :: "(string \<times> Property) list"
  Required :: "string list"

record Tool =
  Name :: string
  Description :: string
  InputSchema :: ToolSchema

text \<open>
  A value of Go's \<open>interface{}\<close>.  \<open>ANil\<close> is the nil interface.  The next six
  constructors are the dynamic values \<open>encoding/json\<close> produces when it decodes into an
  \<open>interface{}\<close> (\<open>AFloat64 v\<close> is the float64 of integer value \<open>v\<close>), \<open>AInt\<close> is a Go
  \<open>int\<close> as the tests pass for identifiers, and the last three are the payloads the
  server itself builds: an \<open>InitializeResponse\<close>, the map literal
  \<open>map[string]interface{}{"tools": tools}\<close> and a \<open>CallToolResponse\<close>.
\<close>

datatype any =
    ANil
  | ABool bool
  | AFloat64 int
  | AInt int
  | AString string
  | ASlice "any list"
  | AMap "(string \<times> any) list"
  | AInitializeResponse InitializeResponse
  | AToolsResult "Tool list"
  | ACallToolResponse CallToolResponse

record Error =
  Code :: int
  Message :: string
  Data :: any

record Message =
  JSONRPCVersion :: string
  ID :: any
  Method :: string
  Params :: any
  Result :: any
  Error :: "Error option"

definition MCPVersion :: string where
  "MCPVersion = ''2024-11-05''"

definition MethodInitialize :: string where
  "MethodInitialize = ''initialize''"

definition MethodListTools :: string where
  "MethodListTools = ''tools/list''"

definition MethodCallTool :: string where
  "MethodCallTool = ''tools/call''"

definition ErrorCodeParseError :: int where
  "ErrorCodeParseError = - 32700"

definition ErrorCodeInvalidRequest :: int where
  "ErrorCodeInvalidRequest = - 32600"

definition ErrorCodeMethodNotFound :: int where
  "ErrorCodeMethodNotFound = - 32601"

definition ErrorCodeInvalidParams :: int where
  "ErrorCodeInvalidParams = - 32602"

definition ErrorCodeInternalError :: int where
  "ErrorCodeInternalError = - 32603"

text \<open>The four constructors.  A field the Go literal does not mention has its zero value.\<close>

definition NewRequest :: "any \<Rightarrow> string \<Rightarrow> any \<Rightarrow> Message" where
  "NewRequest ident method params =
     \<lparr>JSONRPCVersion = ''2.0'', ID = ident, Method = method, Params = params,
      Result = ANil, Error = None\<rparr>"

definition NewResponse :: "any \<Rightarrow> any \<Rightarrow> Message" where
  "NewResponse ident result =
     \<lparr>JSONRPCVersion = ''2.0'', ID = ident, Method = '''', Params = ANil,
      Result = result, Error = None\<rparr>"

definition NewErrorResponse :: "any \<Rightarrow> int \<Rightarrow> string \<Rightarrow> any \<Rightarrow> Message" where
  "NewErrorResponse ident code message data =
     \<lparr>JSONRPCVersion = ''2.0'', ID = ident, Method = '''', Params = ANil,
      Result = ANil, Error = Some \<lparr>Code = code, Message = message, Data = data\<rparr>\<rparr>"

definition NewNotification :: "string \<Rightarrow> any \<Rightarrow> Message" where
  "NewNotification method params =
     \<lparr>JSONRPCVersion = ''2.0'', ID = ANil, Method = method, Params = params,
      Result = ANil, Error = None\<rparr>"

definition CreateTextContent :: "string \<Rightarrow> Content" where
  "CreateTextContent text = \<lparr>Content.Type = ''text'', Text = text, Content.Data = '''', MimeType = ''''\<rparr>"

text \<open>
  Which of the three role fields of a message are populated: a method that is not the
  empty string, a result that is not nil, an error pointer that is not nil.
\<close>

definition populated :: "Message \<Rightarrow> nat" where
  "populated m =
     (if Method m \<noteq> '''' then 1 else 0) + (if Result m \<noteq> ANil then 1 else 0)
     + (if Error m \<noteq> None then 1 else 0)"

section \<open>Tool registry (internal/tools)\<close>

text \<open>
  The \<open>Tool\<close> interface of package tools: name, description and schema of an
  implementation.  What \<open>Execute\<close> returns depends on the HackTheBox API; it is supplied
  from outside, see \<open>ExecuteTool\<close>.
\<close>

record tools_Tool =
  Name :: string
  Description :: string
  Schema :: ToolSchema

text \<open>
  The \<open>tools\<close> field of the registry, a Go \<open>map[string]Tool\<close>, as an association list
  with one entry per key.
\<close>

type_synonym Registry = "(string \<times> tools_Tool) list"

definition RegisterTool :: "Registry \<Rightarrow> tools_Tool \<Rightarrow> Registry" where
  "RegisterTool r tool = AList.update (tools_Tool.Name tool) tool r"

definition GetTool :: "Registry \<Rightarrow> string \<Rightarrow> tools_Tool option" where
  "GetTool r name = map_of r name"

text \<open>The twelve implementations: \<open>Name()\<close>, \<open>Description()\<close> and \<open>Schema()\<close> of each.\<close>

definition ListChallenges :: tools_Tool where
  "ListChallenges =
     \<lparr>tools_Tool.Name = ''list_challenges'',
      tools_Tool.Description =
        ''Get a paginated list of HackTheBox challenges with optional filtering by category, difficulty, and status'',
      Schema =
        \<lparr>ToolSchema.Type = ''object'',
         Properties =
           [(''category'',
             \<lparr>Property.Type = ''string'',
              Property.Description = ''Filter by challenge category (Web, Pwn, Crypto, Forensics, etc.)'',
              Enum = [], Default = DefaultNil\<rparr>),
            (''difficulty'',
             \<lparr>Property.Type = ''string'',
              Property.Description = ''Filter by difficulty level'',
              Enum = [''Easy'', ''Medium'', ''Hard'', ''Insane''], Default = DefaultNil\<rparr>),
            (''status'',
             \<lparr>Property.Type = ''string'',
              Property.Description = ''Filter by challenge status'',
              Enum = [''active'', ''retired''], Default = DefaultString ''active''\<rparr>),
            (''page'',
             \<lparr>Property.Type = ''integer'',
              Property.Description = ''Page number for pagination'',
              Enum = [], Default = DefaultInt 1\<rparr>),
            (''per_page'',
             \<lparr>Property.Type = ''integer'',
              Property.Description = ''Number of challenges per page'',
              Enum = [], Default = DefaultInt 20\<rparr>)],
         Required = []\<rparr>\<rparr>"

definition StartChallenge :: tools_Tool where
  "StartChallenge =
     \<lparr>tools_Tool.Name = ''start_challenge'',
      tools_Tool.Description =
        ''Start a HackTheBox challenge by ID to initialize the challenge environment'',
      Schema =
        \<lparr>ToolSchema.Type = ''object'',
         Properties =
           [(''challenge_id'',
             \<lparr>Property.Type = ''string'',
              Property.Description = ''The ID of the challenge to start'',
              Enum = [], Default = DefaultNil\<rparr>)],
         Required = [''challenge_id'']\<rparr>\<rparr>"

definition SubmitChallengeFlag :: tools_Tool where
  "SubmitChallengeFlag =
     \<lparr>tools_Tool.Name = ''submit_challenge_flag'',
      tools_Tool.Description =
        ''Submit a flag for a HackTheBox challenge'',
      Schema =
        \<lparr>ToolSchema.Type = ''object'',
         Properties =
           [(''challenge_id'',
             \<lparr>Property.Type = ''string'',
              Property.Description = ''The ID of the challenge'',
              Enum = [], Default = DefaultNil\<rparr>),
            (''flag'',
             \<lparr>Property.Type = ''string'',
              Property.Description = ''The flag to submit'',
              Enum = [], Default = DefaultNil\<rparr>),
            (''difficulty'',
             \<lparr>Property.Type = ''integer'',
              Property.Description = ''Difficulty rating (1-10)'',
              Enum = [], Default = DefaultNil\<rparr>)],
         Required = [''challenge_id'', ''flag'', ''difficulty'']\<rparr>\<rparr>"

definition ListMachines :: tools_Tool where
  "ListMachines =
     \<lparr>tools_Tool.Name = ''list_machines'',
      tools_Tool.Description =
        ''Get a list of HackTheBox machines with optional filtering by status, difficulty, and OS'',
      Schema =
        \<lparr>ToolSchema.Type = ''object'',
         Properties =
           [(''status'',
             \<lparr>Property.Type = ''string'',
              Property.Description = ''Filter by machine status'',
              Enum = [''active'', ''retired''], Default = DefaultString ''active''\<rparr>),
            (''difficulty'',
             \<lparr>Property.Type = ''string'',
              Property.Description = ''Filter by difficulty level'',
              Enum = [''Easy'', ''Medium'', ''Hard'', ''Insane''], Default = DefaultNil\<rparr>),
            (''os'',
             \<lparr>Property.Type = ''string'',
              Property.Description = ''Filter by operating system'',
              Enum = [''Linux'', ''Windows''], Default = DefaultNil\<rparr>),
            (''page'',
             \<lparr>Property.Type = ''integer'',
              Property.Description = ''Page number for pagination'',
              Enum = [], Default = DefaultInt 1\<rparr>),
            (''per_page'',
             \<lparr>Property.Type = ''integer'',
              Property.Description = ''Number of machines per page'',
              Enum = [], Default = DefaultInt 20\<rparr>)],
         Required = []\<rparr>\<rparr>"

definition StartMachine :: tools_Tool where
  "StartMachine =
     \<lparr>tools_Tool.Name = ''start_machine'',
      tools_Tool.Description =
        ''Start a HackTheBox machine by ID and get connection details'',
      Schema =
        \<lparr>ToolSchema.Type = ''object'',
         Properties =
           [(''machine_id'',
             \<lparr>Property.Type = ''integer'',
              Property.Description = ''The ID of the machine to start'',
              Enum = [], Default = DefaultNil\<rparr>)],
         Required = [''machine_id'']\<rparr>\<rparr>"

definition GetMachineIP :: tools_Tool where
  "GetMachineIP =
     \<lparr>tools_Tool.Name = ''get_machine_ip'',
      tools_Tool.Description =
        ''Get the IP address of the currently active machine'',
      Schema =
        \<lparr>ToolSchema.Type = ''object'',
         Properties =
           [(''machine_id'',
             \<lparr>Property.Type = ''integer'',
              Property.Description = ''Optional machine ID. If not provided, gets the active machine IP'',
              Enum = [], Default = DefaultNil\<rparr>)],
         Required = []\<rparr>\<rparr>"

definition SubmitUserFlag :: tools_Tool where
  "SubmitUserFlag =
     \<lparr>tools_Tool.Name = ''submit_user_flag'',
      tools_Tool.Description =
        ''Submit a user flag for a HackTheBox machine'',
      Schema =
        \<lparr>ToolSchema.Type = ''object'',
         Properties =
           [(''machine_id'',
             \<lparr>Property.Type = ''integer'',
              Property.Description = ''The ID of the machine'',
              Enum = [], Default = DefaultNil\<rparr>),
            (''flag'',
             \<lparr>Property.Type = ''string'',
              Property.Description = ''The user flag to submit'',
              Enum = [], Default = DefaultNil\<rparr>)],
         Required = [''machine_id'', ''flag'']\<rparr>\<rparr>"

definition SubmitRootFlag :: tools_Tool where
  "SubmitRootFlag =
     \<lparr>tools_Tool.Name = ''submit_root_flag'',
      tools_Tool.Description =
        ''Submit a root flag for a HackTheBox machine'',
      Schema =
        \<lparr>ToolSchema.Type = ''object'',
         Properties =
           [(''machine_id'',
             \<lparr>Property.Type = ''integer'',
              Property.Description = ''The ID of the machine'',
              Enum = [], Default = DefaultNil\<rparr>),
            (''flag'',
             \<lparr>Property.Type = ''string'',
              Property.Description = ''The root flag to submit'',
              Enum = [], Default = DefaultNil\<rparr>)],
         Required = [''machine_id'', ''flag'']\<rparr>\<rparr>"

definition GetUserProfile :: tools_Tool where
  "GetUserProfile =
     \<lparr>tools_Tool.Name = ''get_user_profile'',
      tools_Tool.Description =
        ''Get the authenticated user's profile information including points, rank, and subscription status'',
      Schema =
        \<lparr>ToolSchema.Type = ''object'',
         Properties = [],
         Required = []\<rparr>\<rparr>"

definition GetUserProgress :: tools_Tool where
  "GetUserProgress =
     \<lparr>tools_Tool.Name = ''get_user_progress'',
      tools_Tool.Description =
        ''Get user progress including completed challenges, machines, and achievements'',
      Schema =
        \<lparr>ToolSchema.Type = ''object'',
         Properties =
           [(''type'',
             \<lparr>Property.Type = ''string'',
              Property.Description = ''Type of progress to retrieve'',
              Enum = [''overview'', ''machines'', ''challenges''], Default = DefaultString ''overview''\<rparr>),
            (''limit'',
             \<lparr>Property.Type = ''integer'',
              Property.Description = ''Limit the number of results'',
              Enum = [], Default = DefaultInt 50\<rparr>)],
         Required = []\<rparr>\<rparr>"

definition SearchContent :: tools_Tool where
  "SearchContent =
     \<lparr>tools_Tool.Name = ''search_content'',
      tools_Tool.Description =
        ''Search across HackTheBox challenges, machines, and users by name or keyword'',
      Schema =
        \<lparr>ToolSchema.Type = ''object'',
         Properties =
           [(''query'',
             \<lparr>Property.Type = ''string'',
              Property.Description = ''Search query string'',
              Enum = [], Default = DefaultNil\<rparr>),
            (''type'',
             \<lparr>Property.Type = ''string'',
              Property.Description = ''Type of content to search'',
              Enum = [''all'', ''machines'', ''challenges'', ''users''], Default = DefaultString ''all''\<rparr>)],
         Required = [''query'']\<rparr>\<rparr>"

definition GetServerStatus :: tools_Tool where
  "GetServerStatus =
     \<lparr>tools_Tool.Name = ''get_server_status'',
      tools_Tool.Description =
        ''Get MCP server health status and HTB API connectivity information'',
      Schema =
        \<lparr>ToolSchema.Type = ''object'',
         Properties = [],
         Required = []\<rparr>\<rparr>"


text \<open>\<open>NewRegistry\<close> makes the empty map and runs \<open>registerTools\<close>.\<close>

definition registerTools :: "Registry \<Rightarrow> Registry" where
  "registerTools r =
     foldl RegisterTool r
       [ListChallenges, StartChallenge, SubmitChallengeFlag,
        ListMachines, StartMachine, GetMachineIP, SubmitUserFlag, SubmitRootFlag,
        GetUserProfile, GetUserProgress,
        SearchContent, GetServerStatus]"

definition NewRegistry :: Registry where
  "NewRegistry = registerTools []"

text \<open>
  \<open>GetTools\<close> ranges over the map.  Go leaves the iteration order of a map open, so the
  order of the keys in this one iteration, \<open>keys\<close>, comes from outside; \<open>iteration r keys\<close>
  says that it visits every key of the map once.
\<close>

definition iteration :: "Registry \<Rightarrow> string list \<Rightarrow> bool" where
  "iteration r keys \<longleftrightarrow> distinct keys \<and> set keys = set (map fst r)"

definition descriptor :: "tools_Tool \<Rightarrow> Tool" where
  "descriptor tool =
     \<lparr>Tool.Name = tools_Tool.Name tool, Tool.Description = tools_Tool.Description tool,
      InputSchema = Schema tool\<rparr>"

definition GetTools :: "Registry \<Rightarrow> string list \<Rightarrow> Tool list" where
  "GetTools r keys =
     concat (map (\<lambda>k. case map_of r k of None \<Rightarrow> [] | Some tool \<Rightarrow> [descriptor tool]) keys)"

definition ListToolNames :: "Registry \<Rightarrow> string list \<Rightarrow> string list" where
  "ListToolNames r keys = filter (\<lambda>k. map_of r k \<noteq> None) keys"

text \<open>
  \<open>ExecuteTool\<close>.  \<open>exec tool args\<close> is what \<open>tool.Execute(ctx, args)\<close> returns in this
  call: \<open>Inl\<close> the text of the error, \<open>Inr\<close> the response.
\<close>

type_synonym Execute = "tools_Tool \<Rightarrow> (string \<times> any) list \<Rightarrow> string + CallToolResponse"

definition ExecuteTool ::
  "Registry \<Rightarrow> Execute \<Rightarrow> string \<Rightarrow> (string \<times> any) list \<Rightarrow> string + CallToolResponse" where
  "ExecuteTool r exec name args =
     (case GetTool r name of
        None \<Rightarrow> Inl (''tool not found: '' @ name)
      | Some tool \<Rightarrow> exec tool args)"

section \<open>What the program uses of encoding/json\<close>

subsection \<open>Numbers\<close>

text \<open>
  \<open>encoding/json\<close> decodes a number into an \<open>interface{}\<close> as a float64
  (\<open>strconv.ParseFloat\<close>, round to nearest, ties to even, a range error when the result
  is infinite).  \<open>bits a\<close> is the length of \<open>a\<close> in binary; a float64 keeps the 53 leading
  bits.
\<close>

fun bits :: "nat \<Rightarrow> nat" where
  "bits a = (if a = 0 then 0 else Suc (bits (a div 2)))"

declare bits.simps [simp del]

definition roundFloat64 :: "nat \<Rightarrow> nat" where
  "roundFloat64 a =
     (let e = bits a - 53; q = a div 2 ^ e; r = a mod 2 ^ e;
          q' = (if 2 ^ e < 2 * r \<or> (2 * r = 2 ^ e \<and> odd q) then q + 1 else q)
      in q' * 2 ^ e)"

definition ParseFloat :: "int \<Rightarrow> int option" where
  "ParseFloat n =
     (let v = roundFloat64 (nat \<bar>n\<bar>)
      in if 2 ^ 1024 \<le> v then None else Some (sgn n * int v))"

text \<open>
  The encoder writes a float64 with the fewest digits that read back as the same
  float64 (\<open>strconv.AppendFloat\<close> with precision -1), and of those the decimal nearest to
  it.  \<open>candidates k a\<close> are the multiples of \<open>10 ^ k\<close> next to \<open>a\<close> that read back as \<open>a\<close>;
  \<open>shortest\<close> raises \<open>k\<close> while there is one.  \<open>FormatFloat v\<close> is the value of the token
  written for \<open>v\<close>.
\<close>

definition candidates :: "nat \<Rightarrow> nat \<Rightarrow> nat list" where
  "candidates k a =
     (let lo = (a div 10 ^ k) * 10 ^ k; hi = lo + 10 ^ k
      in filter (\<lambda>c. roundFloat64 c = a) (if a - lo \<le> hi - a then [lo, hi] else [hi, lo]))"

fun shortest :: "nat \<Rightarrow> nat \<Rightarrow> nat \<Rightarrow> nat" where
  "shortest fuel k a =
     (if fuel = 0 \<or> candidates (Suc k) a = []
      then (case candidates k a of [] \<Rightarrow> a | c # _ \<Rightarrow> c)
      else shortest (fuel - 1) (Suc k) a)"

declare shortest.simps [simp del]

definition FormatFloat :: "int \<Rightarrow> int" where
  "FormatFloat v = (if v = 0 then 0 else sgn v * int (shortest 400 0 (nat \<bar>v\<bar>)))"

text \<open>The decimal digits of a number, for the text of an error.\<close>

fun digits :: "nat \<Rightarrow> string" where
  "digits n =
     (if n < 10 then [char_of (48 + n)] else digits (n div 10) @ [char_of (48 + n mod 10)])"

declare digits.simps [simp del]

definition literal :: "int \<Rightarrow> string" where
  "literal n = (if n < 0 then ''-'' else []) @ digits (nat \<bar>n\<bar>)"

subsection \<open>Errors of the decoder\<close>

text \<open>
  A line that is not a JSON document gives a \<open>SyntaxError\<close> with the library's text.  A
  document that does not fit the Go type gives an \<open>UnmarshalTypeError\<close>: the JSON value,
  the struct and the field path it was decoded into (both empty at top level), and the
  Go type.
\<close>

datatype jsonError =
    SyntaxError string
  | UnmarshalTypeError string string string string

fun errorText :: "jsonError \<Rightarrow> string" where
  "errorText (SyntaxError msg) = msg"
| "errorText (UnmarshalTypeError v s f t) =
     (if s \<noteq> [] \<or> f \<noteq> []
      then ''json: cannot unmarshal '' @ v @ '' into Go struct field '' @ s @ ''.'' @ f
           @ '' of type '' @ t
      else ''json: cannot unmarshal '' @ v @ '' into Go value of type '' @ t)"

text \<open>The name the decoder gives the kind of a JSON value in such an error.\<close>

fun kind :: "json \<Rightarrow> string" where
  "kind JNull = ''null''"
| "kind (JBool b) = ''bool''"
| "kind (JNum n) = ''number''"
| "kind (JStr s) = ''string''"
| "kind (JArr xs) = ''array''"
| "kind (JObj ms) = ''object''"

subsection \<open>Decoding into an interface value\<close>

text \<open>
  Decoding into an \<open>interface{}\<close>: null gives nil, a number a float64, an array a
  \<open>[]interface{}\<close>, an object a \<open>map[string]interface{}\<close> in which a later member replaces an
  earlier one of the same key.  The only failure is a number out of range; the error
  holds the struct and field path \<open>s\<close>, \<open>f\<close> the decoder is in.
\<close>

fun decodeAny :: "string \<Rightarrow> string \<Rightarrow> json \<Rightarrow> jsonError + any"
  and decodeArray :: "string \<Rightarrow> string \<Rightarrow> json list \<Rightarrow> jsonError + any list"
  and decodeMembers ::
    "string \<Rightarrow> string \<Rightarrow> (string \<times> json) list \<Rightarrow> jsonError + (string \<times> any) list" where
  "decodeAny s f JNull = Inr ANil"
| "decodeAny s f (JBool b) = Inr (ABool b)"
| "decodeAny s f (JNum n) =
     (case ParseFloat n of
        None \<Rightarrow> Inl (UnmarshalTypeError (''number '' @ literal n) s f ''float64'')
      | Some v \<Rightarrow> Inr (AFloat64 v))"
| "decodeAny s f (JStr x) = Inr (AString x)"
| "decodeAny s f (JArr xs) =
     (case decodeArray s f xs of Inl e \<Rightarrow> Inl e | Inr ys \<Rightarrow> Inr (ASlice ys))"
| "decodeAny s f (JObj ms) =
     (case decodeMembers s f ms of
        Inl e \<Rightarrow> Inl e
      | Inr kvs \<Rightarrow> Inr (AMap (foldl (\<lambda>m (k, v). AList.update k v m) [] kvs)))"
| "decodeArray s f [] = Inr []"
| "decodeArray s f (x # xs) =
     (case decodeAny s f x of
        Inl e \<Rightarrow> Inl e
      | Inr y \<Rightarrow> (case decodeArray s f xs of Inl e \<Rightarrow> Inl e | Inr ys \<Rightarrow> Inr (y # ys)))"
| "decodeMembers s f [] = Inr []"
| "decodeMembers s f ((k, x) # ms) =
     (case decodeAny s f x of
        Inl e \<Rightarrow> Inl e
      | Inr y \<Rightarrow>
          (case decodeMembers s f ms of Inl e \<Rightarrow> Inl e | Inr kvs \<Rightarrow> Inr ((k, y) # kvs)))"

subsection \<open>Encoding\<close>

text \<open>
  \<open>json.Marshal\<close> of the values above.  A struct is written field by field in the order
  of its declaration, under the name of its tag; a field tagged \<open>omitempty\<close> is left out
  when it is false, the empty string, a nil pointer, a nil interface or an empty slice.
  A map is written with its keys sorted.  A nil slice is written as null; the slices of
  \<open>CallToolResponse.Content\<close> and of \<open>GetTools\<close> are nil exactly when they are empty.
\<close>

definition optional :: "string \<Rightarrow> string \<Rightarrow> (string \<times> json) list" where
  "optional name x = (if x = [] then [] else [(name, JStr x)])"

definition encodeContent :: "Content \<Rightarrow> json" where
  "encodeContent c =
     JObj ([(''type'', JStr (Content.Type c))] @ optional ''text'' (Text c)
           @ optional ''data'' (Content.Data c) @ optional ''mimeType'' (MimeType c))"

definition encodeCallToolResponse :: "CallToolResponse \<Rightarrow> json" where
  "encodeCallToolResponse r =
     JObj ([(''content'', if Content r = [] then JNull else JArr (map encodeContent (Content r)))]
           @ (if IsError r then [(''isError'', JBool True)] else []))"

definition encodeListChanged :: "bool \<Rightarrow> json" where
  "encodeListChanged b = JObj (if b then [(''listChanged'', JBool True)] else [])"

definition encodeServerCapabilities :: "ServerCapabilities \<Rightarrow> json" where
  "encodeServerCapabilities c =
     JObj ((case Prompts c of None \<Rightarrow> [] | Some b \<Rightarrow> [(''prompts'', encodeListChanged b)])
           @ (case Resources c of
                None \<Rightarrow> []
              | Some (s, l) \<Rightarrow>
                  [(''resources'',
                    JObj ((if s then [(''subscribe'', JBool True)] else [])
                          @ (if l then [(''listChanged'', JBool True)] else [])))])
           @ (case Tools c of
                None \<Rightarrow> []
              | Some t \<Rightarrow> [(''tools'', encodeListChanged (ListChanged t))]))"

definition encodeInitializeResponse :: "InitializeResponse \<Rightarrow> json" where
  "encodeInitializeResponse r =
     JObj [(''protocolVersion'', JStr (ProtocolVersion r)),
           (''capabilities'', encodeServerCapabilities (Capabilities r)),
           (''serverInfo'',
            JObj [(''name'', JStr (ServerInfo.Name (ServerInfo r))),
                  (''version'', JStr (Version (ServerInfo r)))])]"

definition encodeProperty :: "Property \<Rightarrow> json" where
  "encodeProperty p =
     JObj ([(''type'', JStr (Property.Type p)),
            (''description'', JStr (Property.Description p))]
           @ (if Enum p = [] then [] else [(''enum'', JArr (map JStr (Enum p)))])
           @ (case Default p of
                DefaultNil \<Rightarrow> []
              | DefaultString x \<Rightarrow> [(''default'', JStr x)]
              | DefaultInt n \<Rightarrow> [(''default'', JNum n)]))"

definition encodeToolSchema :: "ToolSchema \<Rightarrow> json" where
  "encodeToolSchema s =
     JObj ([(''type'', JStr (ToolSchema.Type s)),
            (''properties'',
             JObj (sort_key fst (map (\<lambda>(k, p). (k, encodeProperty p)) (Properties s))))]
           @ (if Required s = [] then [] else [(''required'', JArr (map JStr (Required s)))]))"

definition encodeTool :: "Tool \<Rightarrow> json" where
  "encodeTool t =
     JObj [(''name'', JStr (Tool.Name t)), (''description'', JStr (Tool.Description t)),
           (''inputSchema'', encodeToolSchema (InputSchema t))]"

fun encodeAny :: "any \<Rightarrow> json"
  and encodeSlice :: "any list \<Rightarrow> json list"
  and encodeMap :: "(string \<times> any) list \<Rightarrow> (string \<times> json) list" where
  "encodeAny ANil = JNull"
| "encodeAny (ABool b) = JBool b"
| "encodeAny (AFloat64 v) = JNum (FormatFloat v)"
| "encodeAny (AInt n) = JNum n"
| "encodeAny (AString x) = JStr x"
| "encodeAny (ASlice xs) = JArr (encodeSlice xs)"
| "encodeAny (AMap kvs) = JObj (sort_key fst (encodeMap kvs))"
| "encodeAny (AInitializeResponse r) = encodeInitializeResponse r"
| "encodeAny (AToolsResult ts) =
     JObj [(''tools'', if ts = [] then JNull else JArr (map encodeTool ts))]"
| "encodeAny (ACallToolResponse r) = encodeCallToolResponse r"
| "encodeSlice [] = []"
| "encodeSlice (x # xs) = encodeAny x # encodeSlice xs"
| "encodeMap [] = []"
| "encodeMap ((k, x) # kvs) = (k, encodeAny x) # encodeMap kvs"

definition encodeError :: "Error \<Rightarrow> json" where
  "encodeError e =
     JObj ([(''code'', JNum (Code e)), (''message'', JStr (Message e))]
           @ (if Error.Data e = ANil then [] else [(''data'', encodeAny (Error.Data e))]))"

definition encodeMessage :: "Message \<Rightarrow> json" where
  "encodeMessage m =
     JObj ([(''jsonrpc'', JStr (JSONRPCVersion m))]
           @ (if ID m = ANil then [] else [(''id'', encodeAny (ID m))])
           @ optional ''method'' (Method m)
           @ (if Params m = ANil then [] else [(''params'', encodeAny (Params m))])
           @ (if Result m = ANil then [] else [(''result'', encodeAny (Result m))])
           @ (case Error m of None \<Rightarrow> [] | Some e \<Rightarrow> [(''error'', encodeError e)]))"

subsection \<open>Decoding into a struct\<close>

text \<open>
  The decoder matches a key of the object with a field of the struct by its exact name
  or, failing that, without regard to case (Unicode simple folding: besides the ASCII
  letters, U+017F folds with \<open>s\<close> and U+212A with \<open>k\<close>).  A key that matches no field is
  skipped.  The members are decoded in the order of the document.  The decoder keeps
  the first type error and goes on; the caller drops the value when there is an error,
  so the model stops at the first.
\<close>

fun foldName :: "string \<Rightarrow> string" where
  "foldName [] = []"
| "foldName (c # cs) =
     (if c = CHR 0xC5 \<and> take 1 cs = [CHR 0xBF] then CHR ''S'' # foldName (drop 1 cs)
      else if c = CHR 0xE2 \<and> take 2 cs = [CHR 0x84, CHR 0xAA]
        then CHR ''K'' # foldName (drop 2 cs)
      else if CHR ''a'' \<le> c \<and> c \<le> CHR ''z''
        then char_of (of_char c - (32 :: nat)) # foldName cs
      else c # foldName cs)"

definition findField :: "string list \<Rightarrow> string \<Rightarrow> string option" where
  "findField names key =
     (if key \<in> set names then Some key
      else find (\<lambda>name. foldName name = foldName key) names)"

fun decodeFields :: "('a \<Rightarrow> string \<times> json \<Rightarrow> jsonError + 'a) \<Rightarrow> 'a \<Rightarrow>
    (string \<times> json) list \<Rightarrow> jsonError + 'a" where
  "decodeFields field v [] = Inr v"
| "decodeFields field v (m # ms) =
     (case field v m of Inl e \<Rightarrow> Inl e | Inr v' \<Rightarrow> decodeFields field v' ms)"

text \<open>
  Into a \<open>string\<close>, an \<open>int\<close> and a \<open>map[string]interface{}\<close>: null leaves a string or an int
  as it is and makes the map nil; an object is added to the map that is there.
\<close>

fun decodeString :: "string \<Rightarrow> string \<Rightarrow> string \<Rightarrow> json \<Rightarrow> jsonError + string" where
  "decodeString s f cur (JStr x) = Inr x"
| "decodeString s f cur JNull = Inr cur"
| "decodeString s f cur j = Inl (UnmarshalTypeError (kind j) s f ''string'')"

fun decodeInt :: "string \<Rightarrow> string \<Rightarrow> int \<Rightarrow> json \<Rightarrow> jsonError + int" where
  "decodeInt s f cur (JNum n) =
     (if - (2 ^ 63) \<le> n \<and> n < 2 ^ 63 then Inr n
      else Inl (UnmarshalTypeError (''number '' @ literal n) s f ''int''))"
| "decodeInt s f cur JNull = Inr cur"
| "decodeInt s f cur j = Inl (UnmarshalTypeError (kind j) s f ''int'')"

fun decodeMap :: "string \<Rightarrow> string \<Rightarrow> (string \<times> any) list \<Rightarrow> json \<Rightarrow>
    jsonError + (string \<times> any) list" where
  "decodeMap s f cur (JObj ms) =
     (case decodeMembers s f ms of
        Inl e \<Rightarrow> Inl e
      | Inr kvs \<Rightarrow> Inr (foldl (\<lambda>m (k, v). AList.update k v m) cur kvs))"
| "decodeMap s f cur JNull = Inr []"
| "decodeMap s f cur j = Inl (UnmarshalTypeError (kind j) s f ''map[string]interface {}'')"

text \<open>\<open>Error\<close> and \<open>Message\<close>.\<close>

definition errorField :: "Error \<Rightarrow> string \<times> json \<Rightarrow> jsonError + Error" where
  "errorField e m =
     (let name = findField [''code'', ''message'', ''data''] (fst m); j = snd m
      in if name = Some ''code''
           then map_sum id (\<lambda>n. e\<lparr>Code := n\<rparr>) (decodeInt ''Error'' ''error.code'' (Code e) j)
         else if name = Some ''message''
           then map_sum id (\<lambda>x. e\<lparr>Message := x\<rparr>)
                  (decodeString ''Error'' ''error.message'' (Message e) j)
         else if name = Some ''data''
           then map_sum id (\<lambda>x. e\<lparr>Error.Data := x\<rparr>) (decodeAny ''Error'' ''error.data'' j)
         else Inr e)"

fun decodeError :: "Error option \<Rightarrow> json \<Rightarrow> jsonError + Error option" where
  "decodeError cur JNull = Inr None"
| "decodeError cur (JObj ms) =
     map_sum id Some
       (decodeFields errorField
          (case cur of None \<Rightarrow> \<lparr>Code = 0, Message = [], Data = ANil\<rparr> | Some e \<Rightarrow> e) ms)"
| "decodeError cur j = Inl (UnmarshalTypeError (kind j) ''Message'' ''error'' ''mcp.Error'')"

definition messageField :: "Message \<Rightarrow> string \<times> json \<Rightarrow> jsonError + Message" where
  "messageField m kv =
     (let name = findField [''jsonrpc'', ''id'', ''method'', ''params'', ''result'', ''error'']
                   (fst kv);
          j = snd kv
      in if name = Some ''jsonrpc''
           then map_sum id (\<lambda>x. m\<lparr>JSONRPCVersion := x\<rparr>)
                  (decodeString ''Message'' ''jsonrpc'' (JSONRPCVersion m) j)
         else if name = Some ''id''
           then map_sum id (\<lambda>x. m\<lparr>ID := x\<rparr>) (decodeAny ''Message'' ''id'' j)
         else if name = Some ''method''
           then map_sum id (\<lambda>x. m\<lparr>Method := x\<rparr>)
                  (decodeString ''Message'' ''method'' (Method m) j)
         else if name = Some ''params''
           then map_sum id (\<lambda>x. m\<lparr>Params := x\<rparr>) (decodeAny ''Message'' ''params'' j)
         else if name = Some ''result''
           then map_sum id (\<lambda>x. m\<lparr>Result := x\<rparr>) (decodeAny ''Message'' ''result'' j)
         else if name = Some ''error''
           then map_sum id (\<lambda>x. m\<lparr>Error := x\<rparr>) (decodeError (Error m) j)
         else Inr m)"

definition zeroMessage :: Message where
  "zeroMessage =
     \<lparr>JSONRPCVersion = [], ID = ANil, Method = [], Params = ANil, Result = ANil,
      Error = None\<rparr>"

fun decodeMessage :: "json \<Rightarrow> jsonError + Message" where
  "decodeMessage JNull = Inr zeroMessage"
| "decodeMessage (JObj ms) = decodeFields messageField zeroMessage ms"
| "decodeMessage j = Inl (UnmarshalTypeError (kind j) [] [] ''mcp.Message'')"

text \<open>\<open>InitializeRequest\<close> and \<open>CallToolRequest\<close>.  Null leaves a nested struct as it is.\<close>

record ClientCapabilities =
  Experimental :: "(string \<times> any) list"
  Sampling :: "(string \<times> any) list"

record ClientInfo =
  Name :: string
  Version :: string

record InitializeRequest =
  ProtocolVersion :: string
  Capabilities :: ClientCapabilities
  ClientInfo :: ClientInfo
  Meta :: "(string \<times> any) list"

record CallToolRequest =
  Name :: string
  Arguments :: "(string \<times> any) list"

definition clientCapabilitiesField ::
  "ClientCapabilities \<Rightarrow> string \<times> json \<Rightarrow> jsonError + ClientCapabilities" where
  "clientCapabilitiesField c m =
     (let name = findField [''experimental'', ''sampling''] (fst m); j = snd m
      in if name = Some ''experimental''
           then map_sum id (\<lambda>x. c\<lparr>Experimental := x\<rparr>)
                  (decodeMap ''ClientCapabilities'' ''capabilities.experimental''
                     (Experimental c) j)
         else if name = Some ''sampling''
           then map_sum id (\<lambda>x. c\<lparr>Sampling := x\<rparr>)
                  (decodeMap ''ClientCapabilities'' ''capabilities.sampling'' (Sampling c) j)
         else Inr c)"

fun decodeClientCapabilities ::
  "ClientCapabilities \<Rightarrow> json \<Rightarrow> jsonError + ClientCapabilities" where
  "decodeClientCapabilities cur JNull = Inr cur"
| "decodeClientCapabilities cur (JObj ms) = decodeFields clientCapabilitiesField cur ms"
| "decodeClientCapabilities cur j =
     Inl (UnmarshalTypeError (kind j) ''InitializeRequest'' ''capabilities''
            ''mcp.ClientCapabilities'')"

definition clientInfoField :: "ClientInfo \<Rightarrow> string \<times> json \<Rightarrow> jsonError + ClientInfo" where
  "clientInfoField c m =
     (let name = findField [''name'', ''version''] (fst m); j = snd m
      in if name = Some ''name''
           then map_sum id (\<lambda>x. c\<lparr>ClientInfo.Name := x\<rparr>)
                  (decodeString ''ClientInfo'' ''clientInfo.name'' (ClientInfo.Name c) j)
         else if name = Some ''version''
           then map_sum id (\<lambda>x. c\<lparr>ClientInfo.Version := x\<rparr>)
                  (decodeString ''ClientInfo'' ''clientInfo.version'' (ClientInfo.Version c) j)
         else Inr c)"

fun decodeClientInfo :: "ClientInfo \<Rightarrow> json \<Rightarrow> jsonError + ClientInfo" where
  "decodeClientInfo cur JNull = Inr cur"
| "decodeClientInfo cur (JObj ms) = decodeFields clientInfoField cur ms"
| "decodeClientInfo cur j =
     Inl (UnmarshalTypeError (kind j) ''InitializeRequest'' ''clientInfo'' ''mcp.ClientInfo'')"

definition initializeRequestField ::
  "InitializeRequest \<Rightarrow> string \<times> json \<Rightarrow> jsonError + InitializeRequest" where
  "initializeRequestField r m =
     (let name = findField [''protocolVersion'', ''capabilities'', ''clientInfo'', ''meta'']
                   (fst m);
          j = snd m
      in if name = Some ''protocolVersion''
           then map_sum id (\<lambda>x. r\<lparr>InitializeRequest.ProtocolVersion := x\<rparr>)
                  (decodeString ''InitializeRequest'' ''protocolVersion''
                     (InitializeRequest.ProtocolVersion r) j)
         else if name = Some ''capabilities''
           then map_sum id (\<lambda>x. r\<lparr>InitializeRequest.Capabilities := x\<rparr>)
                  (decodeClientCapabilities (InitializeRequest.Capabilities r) j)
         else if name = Some ''clientInfo''
           then map_sum id (\<lambda>x. r\<lparr>ClientInfo := x\<rparr>) (decodeClientInfo (ClientInfo r) j)
         else if name = Some ''meta''
           then map_sum id (\<lambda>x. r\<lparr>Meta := x\<rparr>)
                  (decodeMap ''InitializeRequest'' ''meta'' (Meta r) j)
         else Inr r)"

definition zeroInitializeRequest :: InitializeRequest where
  "zeroInitializeRequest =
     \<lparr>InitializeRequest.ProtocolVersion = [],
      InitializeRequest.Capabilities = \<lparr>Experimental = [], Sampling = []\<rparr>,
      ClientInfo = \<lparr>ClientInfo.Name = [], ClientInfo.Version = []\<rparr>, Meta = []\<rparr>"

fun decodeInitializeRequest :: "json \<Rightarrow> jsonError + InitializeRequest" where
  "decodeInitializeRequest JNull = Inr zeroInitializeRequest"
| "decodeInitializeRequest (JObj ms) =
     decodeFields initializeRequestField zeroInitializeRequest ms"
| "decodeInitializeRequest j =
     Inl (UnmarshalTypeError (kind j) [] [] ''mcp.InitializeRequest'')"

definition callToolRequestField ::
  "CallToolRequest \<Rightarrow> string \<times> json \<Rightarrow> jsonError + CallToolRequest" where
  "callToolRequestField r m =
     (let name = findField [''name'', ''arguments''] (fst m); j = snd m
      in if name = Some ''name''
           then map_sum id (\<lambda>x. r\<lparr>CallToolRequest.Name := x\<rparr>)
                  (decodeString ''CallToolRequest'' ''name'' (CallToolRequest.Name r) j)
         else if name = Some ''arguments''
           then map_sum id (\<lambda>x. r\<lparr>Arguments := x\<rparr>)
                  (decodeMap ''CallToolRequest'' ''arguments'' (Arguments r) j)
         else Inr r)"

definition zeroCallToolRequest :: CallToolRequest where
  "zeroCallToolRequest = \<lparr>CallToolRequest.Name = [], Arguments = []\<rparr>"

fun decodeCallToolRequest :: "json \<Rightarrow> jsonError + CallToolRequest" where
  "decodeCallToolRequest JNull = Inr zeroCallToolRequest"
| "decodeCallToolRequest (JObj ms) = decodeFields callToolRequestField zeroCallToolRequest ms"
| "decodeCallToolRequest j = Inl (UnmarshalTypeError (kind j) [] [] ''mcp.CallToolRequest'')"

section \<open>Protocol engine (internal/server/server.go)\<close>

text \<open>
  \<open>parseParams\<close>: nil parameters are an error; otherwise the parameters are encoded and
  decoded again into the target, here by the decoder \<open>decode\<close> of the target's type.
  \<open>Inl\<close> holds the text of the error.  Encoding a decoded value cannot fail.
\<close>

definition parseParams :: "any \<Rightarrow> (json \<Rightarrow> jsonError + 'a) \<Rightarrow> string + 'a" where
  "parseParams params decode =
     (if params = ANil then Inl ''missing parameters''
      else (case decode (encodeAny params) of
              Inl e \<Rightarrow> Inl (''failed to unmarshal params: '' @ errorText e)
            | Inr target \<Rightarrow> Inr target))"

text \<open>
  The output stream is the list of the lines written, each one document followed by a
  newline.  \<open>sendMessage\<close> writes one line.  A failure of the write itself is not
  modelled, nor is the log on standard error.
\<close>

definition sendMessage :: "Message \<Rightarrow> json list" where
  "sendMessage msg = [encodeMessage msg]"

definition sendResponse :: "any \<Rightarrow> any \<Rightarrow> json list" where
  "sendResponse ident result = sendMessage (NewResponse ident result)"

definition sendErrorResponse :: "any \<Rightarrow> int \<Rightarrow> string \<Rightarrow> string \<Rightarrow> json list" where
  "sendErrorResponse ident code message data =
     sendMessage (NewErrorResponse ident code message (AString data))"

text \<open>
  What a call depends on from outside the program: the order in which Go iterates over
  the registry's map this time, and what the tool's \<open>Execute\<close> returns this time.
\<close>

record world =
  mapOrder :: "string list"
  execute :: Execute

definition handleInitialize :: "Message \<Rightarrow> json list" where
  "handleInitialize msg =
     (case parseParams (Params msg) decodeInitializeRequest of
        Inl err \<Rightarrow> sendErrorResponse (ID msg) ErrorCodeInvalidParams ''Invalid params'' err
      | Inr req \<Rightarrow>
          sendResponse (ID msg)
            (AInitializeResponse
               \<lparr>InitializeResponse.ProtocolVersion = MCPVersion,
                InitializeResponse.Capabilities =
                  \<lparr>Prompts = None, Resources = None,
                   Tools = Some \<lparr>ListChanged = False\<rparr>\<rparr>,
                ServerInfo = \<lparr>ServerInfo.Name = ''htb-mcp-server'',
                              ServerInfo.Version = ''1.0.0''\<rparr>\<rparr>))"

definition handleListTools :: "Registry \<Rightarrow> world \<Rightarrow> Message \<Rightarrow> json list" where
  "handleListTools r w msg = sendResponse (ID msg) (AToolsResult (GetTools r (mapOrder w)))"

definition handleCallTool :: "Registry \<Rightarrow> world \<Rightarrow> Message \<Rightarrow> json list" where
  "handleCallTool r w msg =
     (case parseParams (Params msg) decodeCallToolRequest of
        Inl err \<Rightarrow> sendErrorResponse (ID msg) ErrorCodeInvalidParams ''Invalid params'' err
      | Inr req \<Rightarrow>
          (case ExecuteTool r (execute w) (CallToolRequest.Name req) (Arguments req) of
             Inl err \<Rightarrow>
               sendResponse (ID msg)
                 (ACallToolResponse
                    \<lparr>Content = [CreateTextContent (''Error executing tool: '' @ err)],
                     IsError = True\<rparr>)
           | Inr result \<Rightarrow> sendResponse (ID msg) (ACallToolResponse result)))"

text \<open>
  A line as the scanner hands it to the loop, by what \<open>json.Unmarshal\<close> first makes of
  its text: the empty string, a text that is not one JSON value (with the text of the
  syntax error), or a JSON document.
\<close>

datatype line = Empty | Invalid string | Document json

fun Unmarshal :: "line \<Rightarrow> jsonError + Message" where
  "Unmarshal Empty = Inl (SyntaxError ''unexpected end of JSON input'')"
| "Unmarshal (Invalid err) = Inl (SyntaxError err)"
| "Unmarshal (Document j) = decodeMessage j"

definition handleMessage :: "Registry \<Rightarrow> world \<Rightarrow> line \<Rightarrow> json list" where
  "handleMessage r w ln =
     (case Unmarshal ln of
        Inl err \<Rightarrow> sendErrorResponse ANil ErrorCodeParseError ''Parse error'' (errorText err)
      | Inr msg \<Rightarrow>
          if Method msg = MethodInitialize then handleInitialize msg
          else if Method msg = MethodListTools then handleListTools r w msg
          else if Method msg = MethodCallTool then handleCallTool r w msg
          else sendErrorResponse (ID msg) ErrorCodeMethodNotFound ''Method not found''
                 (''Unknown method: '' @ Method msg))"

text \<open>
  \<open>processMessages\<close>: the loop over the scanned lines, each read in its own world; the
  result is everything written.
\<close>

fun processMessages :: "Registry \<Rightarrow> (world \<times> line) list \<Rightarrow> json list" where
  "processMessages r [] = []"
| "processMessages r ((w, ln) # rest) =
     (if ln = Empty then processMessages r rest
      else handleMessage r w ln @ processMessages r rest)"

section \<open>Properties of the message constructors\<close>

text \<open>
  C7, as stated: every message a constructor returns has exactly one of method, result
  and error populated.  That fails for a response built on a nil result (and for a
  request built on the empty method): \<open>NewResponse\<close> stores what it is given and checks
  nothing, so none of the three fields is populated.
\<close>

theorem C7_counterexample:
  "\<not> populated (NewResponse (AInt 1) ANil) = 1"
  by (simp add: populated_def NewResponse_def)

text \<open>
  C7, amended: the constructors are total functions of their arguments.  No message
  they return has more than one of method, result and error populated, so result and
  error are never both set.  Exactly one is populated by \<open>NewErrorResponse\<close> always (the
  error; its result is nil and its method empty), by \<open>NewRequest\<close> and \<open>NewNotification\<close>
  when the method given is not empty, and by \<open>NewResponse\<close> when the result given is not
  nil.  \<open>NewNotification\<close> sets no identifier.
\<close>

theorem C7_constructors:
  "populated (NewRequest i m p) \<le> 1 \<and> populated (NewResponse i r) \<le> 1
   \<and> populated (NewErrorResponse i c t d) = 1 \<and> populated (NewNotification m p) \<le> 1
   \<and> (m \<noteq> [] \<longrightarrow> populated (NewRequest i m p) = 1 \<and> populated (NewNotification m p) = 1)
   \<and> (r \<noteq> ANil \<longrightarrow> populated (NewResponse i r) = 1)
   \<and> Result (NewRequest i m p) = ANil \<and> Error (NewRequest i m p) = None
   \<and> Method (NewRequest i m p) = m \<and> ID (NewRequest i m p) = i
   \<and> Params (NewRequest i m p) = p
   \<and> Method (NewResponse i r) = [] \<and> Error (NewResponse i r) = None
   \<and> Result (NewResponse i r) = r \<and> ID (NewResponse i r) = i
   \<and> Result (NewErrorResponse i c t d) = ANil \<and> Method (NewErrorResponse i c t d) = []
   \<and> Error (NewErrorResponse i c t d) = Some \<lparr>Code = c, Message = t, Data = d\<rparr>
   \<and> ID (NewErrorResponse i c t d) = i
   \<and> ID (NewNotification m p) = ANil \<and> Result (NewNotification m p) = ANil
   \<and> Error (NewNotification m p) = None \<and> Method (NewNotification m p) = m
   \<and> Params (NewNotification m p) = p"
  by (simp add: populated_def NewRequest_def NewResponse_def NewErrorResponse_def
      NewNotification_def)

theorem C7_constructors_witness:
  "populated (NewRequest (AInt 1) MethodInitialize (AMap [(''test'', AString ''value'')])) = 1
   \<and> populated (NewNotification ''test/notification'' ANil) = 1
   \<and> populated (NewResponse (AInt 1) (AMap [(''status'', AString ''ok'')])) = 1
   \<and> populated (NewErrorResponse (AInt 1) ErrorCodeInvalidRequest ''Invalid request''
         (AString ''additional data'')) = 1"
  using C7_constructors [of "AInt 1" MethodInitialize "AMap [(''test'', AString ''value'')]"
      "AMap [(''status'', AString ''ok'')]" ErrorCodeInvalidRequest "''Invalid request''"
      "AString ''additional data''"]
    C7_constructors [of "AInt 1" "''test/notification''" ANil
      "AMap [(''status'', AString ''ok'')]" ErrorCodeInvalidRequest "''Invalid request''"
      "AString ''additional data''"]
  by (simp add: MethodInitialize_def)

section \<open>Properties of the registry\<close>

lemma GetTool_RegisterTool:
  "GetTool (RegisterTool r t) n = (if n = tools_Tool.Name t then Some t else GetTool r n)"
  by (simp add: GetTool_def RegisterTool_def update_conv')

lemma find_append:
  "find P (xs @ ys) = (case find P xs of None \<Rightarrow> find P ys | Some x \<Rightarrow> Some x)"
  by (induction xs) simp_all

lemma GetTool_foldl_RegisterTool:
  "GetTool (foldl RegisterTool r ts) n =
     (case find (\<lambda>t. tools_Tool.Name t = n) (rev ts) of
        None \<Rightarrow> GetTool r n
      | Some t \<Rightarrow> Some t)"
proof (induction ts arbitrary: r)
  case Nil
  show ?case by simp
next
  case (Cons t ts)
  show ?case
    by (simp add: Cons.IH GetTool_RegisterTool find_append split: option.split)
qed

lemma keys_RegisterTool:
  "fst ` set (RegisterTool r t) = insert (tools_Tool.Name t) (fst ` set r)"
  by (simp add: RegisterTool_def dom_update)

lemma distinct_RegisterTool:
  "distinct (map fst r) \<Longrightarrow> distinct (map fst (RegisterTool r t))"
  by (simp add: RegisterTool_def distinct_update)

text \<open>
  C6: \<open>RegisterTool\<close> puts the tool under its own name and reports nothing; after any
  sequence of registrations, \<open>GetTool\<close> finds under a name the tool registered last with
  exactly that name, and nothing when no tool was registered with exactly that name.
  A second registration under a name replaces the first and adds no key.
\<close>

theorem C6_register_resolve:
  "GetTool (RegisterTool r t) (tools_Tool.Name t) = Some t
   \<and> (n \<noteq> tools_Tool.Name t \<longrightarrow> GetTool (RegisterTool r t) n = GetTool r n)
   \<and> (tools_Tool.Name t' = tools_Tool.Name t \<longrightarrow>
        GetTool (RegisterTool (RegisterTool r t) t') (tools_Tool.Name t) = Some t'
        \<and> set (map fst (RegisterTool (RegisterTool r t) t')) = set (map fst (RegisterTool r t)))
   \<and> (distinct (map fst r) \<longrightarrow> distinct (map fst (RegisterTool r t)))
   \<and> GetTool (foldl RegisterTool [] ts) n = find (\<lambda>t. tools_Tool.Name t = n) (rev ts)
   \<and> (n \<notin> tools_Tool.Name ` set ts \<longrightarrow> GetTool (foldl RegisterTool [] ts) n = None)"
proof -
  have "GetTool (foldl RegisterTool [] ts) n = find (\<lambda>t. tools_Tool.Name t = n) (rev ts)"
    using GetTool_foldl_RegisterTool [of "[]" ts n]
    by (simp add: GetTool_def split: option.split)
  moreover have "n \<notin> tools_Tool.Name ` set ts \<Longrightarrow>
      find (\<lambda>t. tools_Tool.Name t = n) (rev ts) = None"
    by (auto simp add: find_None_iff)
  ultimately show ?thesis
    by (simp add: GetTool_RegisterTool keys_RegisterTool distinct_RegisterTool)
qed

end

